theory Spec2Isabelle
  imports Main
begin

section \<open>Callable values\<close>

text \<open>
  Every class template of \<^verbatim>\<open>function_holder.cpp\<close> is parameterised by the type \<open>F\<close> of
  a callable and stores one value of it (\<^verbatim>\<open>F m_fn\<close> or \<^verbatim>\<open>F m_func\<close>). The source fixes
  nothing about \<open>F\<close> but the operations it uses, so \<open>F\<close> is a parameter of the model:

  \<^item> \<open>'c\<close> is the set of values of \<open>F\<close> (the captures of a closure, the members of a
    function object, the address held by a function pointer);
  \<^item> \<open>call\<close> is \<^verbatim>\<open>F::operator()\<close>: from the callable's value, the arguments \<open>'a\<close> and
    the state \<open>'w\<close> of everything else the program can observe, it gives the outcome
    (\<open>Inl e\<close>: the exception \<open>e\<close> leaves the call, \<open>Inr r\<close>: the call returns \<open>r\<close>), the
    callable's own value after the call (a \<^verbatim>\<open>mutable\<close> closure changes it) and the
    state after the call. What a call changed before it throws stays changed;
  \<^item> copying an \<open>F\<close> (copy construction, copy assignment) gives an equal value and
    leaves the source as it is;
  \<^item> moving an \<open>F\<close> gives the target the source's value; the source keeps a valid value
    that \<open>F\<close> chooses: \<open>moved_from\<close> after a move construction,
    \<open>move_assigned_from\<close> (of the target's old value and the source's value) after a
    move assignment.

  The copy, move and destruction of an \<open>F\<close> touch nothing but the objects involved.
\<close>

record ('c, 'a, 'w, 'e, 'r) callable =
  call :: "'c \<Rightarrow> 'a \<Rightarrow> 'w \<Rightarrow> ('e + 'r) \<times> 'c \<times> 'w"
  moved_from :: "'c \<Rightarrow> 'c"
  move_assigned_from :: "'c \<Rightarrow> 'c \<Rightarrow> 'c"

text \<open>
  A callable with a counter of its invocations: the same callable over a state that
  carries one more component, which every call of \<open>operator()\<close> increments, whether
  the call returns or throws. It behaves as \<open>F\<close> on the rest of the state.
\<close>

definition counted :: "('c, 'a, 'w, 'e, 'r) callable \<Rightarrow> ('c, 'a, 'w \<times> nat, 'e, 'r) callable" where
  "counted F =
     \<lparr>call = (\<lambda>c a (w, n). case call F c a w of (res, c', w') \<Rightarrow> (res, c', (w', Suc n))),
      moved_from = moved_from F,
      move_assigned_from = move_assigned_from F\<rparr>"

text \<open>
  The wrappers' call operators are declared \<^verbatim>\<open>void\<close>: the statement \<^verbatim>\<open>m_func();\<close>
  evaluates the call and drops what it returns.
\<close>

definition discard :: "'e + 'r \<Rightarrow> 'e + unit" where
  "discard res = (case res of Inl e \<Rightarrow> Inl e | Inr r \<Rightarrow> Inr ())"

section \<open>\<^verbatim>\<open>generic_guard\<close>\<close>

record 'c generic_guard =
  m_fn :: 'c

text \<open>\<^verbatim>\<open>generic_guard(T&& fn) : m_fn(std::forward<T>(fn))\<close>\<close>

definition generic_guard_ctor :: "'c \<Rightarrow> 'c generic_guard" where
  "generic_guard_ctor fn = \<lparr>m_fn = fn\<rparr>"

text \<open>
  \<^verbatim>\<open>~generic_guard() { m_fn(); }\<close>. The destructor is \<^verbatim>\<open>noexcept\<close>, as every
  destructor without an exception specification: an exception that leaves \<^verbatim>\<open>m_fn()\<close>
  ends the program through \<^verbatim>\<open>std::terminate\<close>. The object is gone afterwards, so only
  the outcome and the state are returned.
\<close>

datatype abort = Std_terminate

definition generic_guard_dtor ::
    "('c, unit, 'w, 'e, 'r) callable \<Rightarrow> 'c generic_guard \<Rightarrow> 'w \<Rightarrow> (abort + unit) \<times> 'w" where
  "generic_guard_dtor F g w =
     (case call F (m_fn g) () w of
        (Inl e, c', w') \<Rightarrow> (Inl Std_terminate, w')
      | (Inr r, c', w') \<Rightarrow> (Inr (), w'))"

text \<open>
  The four defaulted members copy or move \<^verbatim>\<open>m_fn\<close>, the only member. A move returns
  the new (or assigned) guard and the source as the move left it.
\<close>

definition generic_guard_copy_ctor :: "'c generic_guard \<Rightarrow> 'c generic_guard" where
  "generic_guard_copy_ctor other = \<lparr>m_fn = m_fn other\<rparr>"

definition generic_guard_move_ctor ::
    "('c, 'a, 'w, 'e, 'r) callable \<Rightarrow> 'c generic_guard \<Rightarrow> 'c generic_guard \<times> 'c generic_guard" where
  "generic_guard_move_ctor F other =
     (\<lparr>m_fn = m_fn other\<rparr>, other\<lparr>m_fn := moved_from F (m_fn other)\<rparr>)"

definition generic_guard_copy_assign :: "'c generic_guard \<Rightarrow> 'c generic_guard \<Rightarrow> 'c generic_guard" where
  "generic_guard_copy_assign this other = this\<lparr>m_fn := m_fn other\<rparr>"

definition generic_guard_move_assign ::
    "('c, 'a, 'w, 'e, 'r) callable \<Rightarrow> 'c generic_guard \<Rightarrow> 'c generic_guard
       \<Rightarrow> 'c generic_guard \<times> 'c generic_guard" where
  "generic_guard_move_assign F this other =
     (this\<lparr>m_fn := m_fn other\<rparr>,
      other\<lparr>m_fn := move_assigned_from F (m_fn this) (m_fn other)\<rparr>)"

text \<open>
  The use the class is written for (the \<^verbatim>\<open>@example\<close> of its constructor): a block that
  declares a guard and then runs its body. The body returns (\<open>Inr\<close>, also for an early
  \<^verbatim>\<open>return\<close>) or throws (\<open>Inl\<close>); on both ways out of the block the local guard is
  destroyed. When the destructor terminates the program, nothing of the body's outcome
  is left.
\<close>

definition guarded_scope ::
    "('c, unit, 'w, 'e, 'r) callable \<Rightarrow> 'c \<Rightarrow> ('w \<Rightarrow> ('x + 'b) \<times> 'w) \<Rightarrow> 'w
       \<Rightarrow> (abort + ('x + 'b)) \<times> 'w" where
  "guarded_scope F fn body w =
     (let guard = generic_guard_ctor fn in
      case body w of
        (res, w1) \<Rightarrow>
          (case generic_guard_dtor F guard w1 of
             (Inl t, w2) \<Rightarrow> (Inl t, w2)
           | (Inr u, w2) \<Rightarrow> (Inr res, w2)))"

text \<open>
  The same block with a second guard move-constructed from the first
  (\<^verbatim>\<open>generic_guard<F> second(std::move(first));\<close>). Locals are destroyed in the reverse
  order of their declaration: \<open>second\<close>, then \<open>first\<close>; a destructor that terminates
  the program ends the run there.
\<close>

definition moved_guard_scope ::
    "('c, unit, 'w, 'e, 'r) callable \<Rightarrow> 'c \<Rightarrow> ('w \<Rightarrow> ('x + 'b) \<times> 'w) \<Rightarrow> 'w
       \<Rightarrow> (abort + ('x + 'b)) \<times> 'w" where
  "moved_guard_scope F fn body w =
     (case generic_guard_move_ctor F (generic_guard_ctor fn) of
        (second, first) \<Rightarrow>
          (case body w of
             (res, w1) \<Rightarrow>
               (case generic_guard_dtor F second w1 of
                  (Inl t, w2) \<Rightarrow> (Inl t, w2)
                | (Inr u, w2) \<Rightarrow>
                    (case generic_guard_dtor F first w2 of
                       (Inl t, w3) \<Rightarrow> (Inl t, w3)
                     | (Inr u', w3) \<Rightarrow> (Inr res, w3)))))"

text \<open>
  A block with two guards and an assignment between them:
  \<^verbatim>\<open>generic_guard<F> target(fn_t); generic_guard<F> source(fn_s); target = source;\<close>
  and then the body. At the end \<open>source\<close>, declared last, is destroyed first, then
  \<open>target\<close>. The second block has \<^verbatim>\<open>target = std::move(source);\<close> instead.
\<close>

definition copy_assigned_guard_scope ::
    "('c, unit, 'w, 'e, 'r) callable \<Rightarrow> 'c \<Rightarrow> 'c \<Rightarrow> ('w \<Rightarrow> ('x + 'b) \<times> 'w) \<Rightarrow> 'w
       \<Rightarrow> (abort + ('x + 'b)) \<times> 'w" where
  "copy_assigned_guard_scope F fn_t fn_s body w =
     (let source = generic_guard_ctor fn_s;
          target = generic_guard_copy_assign (generic_guard_ctor fn_t) source in
      case body w of
        (res, w1) \<Rightarrow>
          (case generic_guard_dtor F source w1 of
             (Inl t, w2) \<Rightarrow> (Inl t, w2)
           | (Inr u, w2) \<Rightarrow>
               (case generic_guard_dtor F target w2 of
                  (Inl t, w3) \<Rightarrow> (Inl t, w3)
                | (Inr u', w3) \<Rightarrow> (Inr res, w3))))"

definition move_assigned_guard_scope ::
    "('c, unit, 'w, 'e, 'r) callable \<Rightarrow> 'c \<Rightarrow> 'c \<Rightarrow> ('w \<Rightarrow> ('x + 'b) \<times> 'w) \<Rightarrow> 'w
       \<Rightarrow> (abort + ('x + 'b)) \<times> 'w" where
  "move_assigned_guard_scope F fn_t fn_s body w =
     (case generic_guard_move_assign F (generic_guard_ctor fn_t) (generic_guard_ctor fn_s) of
        (target, source) \<Rightarrow>
          (case body w of
             (res, w1) \<Rightarrow>
               (case generic_guard_dtor F source w1 of
                  (Inl t, w2) \<Rightarrow> (Inl t, w2)
                | (Inr u, w2) \<Rightarrow>
                    (case generic_guard_dtor F target w2 of
                       (Inl t, w3) \<Rightarrow> (Inl t, w3)
                     | (Inr u', w3) \<Rightarrow> (Inr res, w3)))))"

text \<open>
  The action of the specification's scenario, \<^verbatim>\<open>[&]{ closed = true; }\<close>: it captures a
  reference, so its value is the empty tuple and a move leaves it as it was; the state is
  the flag \<open>closed\<close>.
\<close>

definition close_action :: "(unit, unit, bool, unit, unit) callable" where
  "close_action =
     \<lparr>call = (\<lambda>c a closed. (Inr (), c, True)),
      moved_from = (\<lambda>c. c),
      move_assigned_from = (\<lambda>t c. c)\<rparr>"

section \<open>\<^verbatim>\<open>functor_extension\<close> and the base class \<open>D\<close>\<close>

text \<open>
  \<^verbatim>\<open>generic_functor\<close> (primary template) and \<^verbatim>\<open>variadic_functor\<close> derive from their
  parameter \<open>D\<close>, pass the constructor's remaining arguments to \<open>D\<close>'s constructor and
  override \<open>D\<close>'s virtual call operator. \<open>D\<close> is the user's class, so it is a parameter:
  \<open>'d\<close> is the state of a \<open>D\<close> subobject, \<open>base_ctor\<close> its constructor (from the
  arguments \<open>'p\<close>) and \<open>base_call\<close> the body \<open>D\<close> itself gives its virtual
  \<^verbatim>\<open>operator()\<close>, which runs on an object whose most derived class is \<open>D\<close>.
  \<^verbatim>\<open>functor_extension\<close>, the default \<open>D\<close>, declares the operator pure virtual: it has
  no such objects.
\<close>

record ('d, 'p, 'a, 'w, 'e) base_class =
  base_ctor :: "'p \<Rightarrow> 'd"
  base_call :: "'d \<Rightarrow> 'a \<Rightarrow> 'w \<Rightarrow> ('e + unit) \<times> 'd \<times> 'w"

section \<open>\<^verbatim>\<open>generic_functor\<close>, primary template\<close>

record ('d, 'c) generic_functor =
  d_base :: 'd
  m_func :: 'c

text \<open>
  \<^verbatim>\<open>generic_functor(T&& fn, D_Args&& ... args)
     : D(std::forward<D_Args>(args) ...), m_func(std::forward<T>(fn))\<close>
\<close>

definition generic_functor_ctor ::
    "('d, 'p, 'a, 'w, 'e) base_class \<Rightarrow> 'c \<Rightarrow> 'p \<Rightarrow> ('d, 'c) generic_functor" where
  "generic_functor_ctor D fn args = \<lparr>d_base = base_ctor D args, m_func = fn\<rparr>"

text \<open>\<^verbatim>\<open>virtual void operator()() override { m_func(); }\<close>\<close>

definition generic_functor_call ::
    "('c, unit, 'w, 'e, 'r) callable \<Rightarrow> ('d, 'c) generic_functor \<Rightarrow> 'w
       \<Rightarrow> ('e + unit) \<times> ('d, 'c) generic_functor \<times> 'w" where
  "generic_functor_call F this w =
     (case call F (m_func this) () w of
        (res, c', w') \<Rightarrow> (discard res, this\<lparr>m_func := c'\<rparr>, w'))"

text \<open>
  An object reached through a \<^verbatim>\<open>D&\<close>, a \<^verbatim>\<open>D*\<close> or a \<^verbatim>\<open>std::unique_ptr<D>\<close>.
  Its most derived class is \<open>D\<close> itself or \<^verbatim>\<open>generic_functor<F, D>\<close> for some \<open>F\<close>; as the
  object's table of virtual functions does, the handle tells which, and for which \<open>F\<close>.
  A call of the virtual operator through the handle runs the final overrider of the
  most derived class.
\<close>

datatype ('d, 'c, 'w, 'e, 'r) d_object =
    Base_object 'd
  | Generic_functor_object "('c, unit, 'w, 'e, 'r) callable" "('d, 'c) generic_functor"

definition virtual_call ::
    "('d, 'p, unit, 'w, 'e) base_class \<Rightarrow> ('d, 'c, 'w, 'e, 'r) d_object \<Rightarrow> 'w
       \<Rightarrow> ('e + unit) \<times> ('d, 'c, 'w, 'e, 'r) d_object \<times> 'w" where
  "virtual_call D obj w =
     (case obj of
        Base_object d \<Rightarrow>
          (case base_call D d () w of (res, d', w') \<Rightarrow> (res, Base_object d', w'))
      | Generic_functor_object F g \<Rightarrow>
          (case generic_functor_call F g w of
             (res, g', w') \<Rightarrow> (res, Generic_functor_object F g', w')))"

text \<open>
  The loop of the \<^verbatim>\<open>@example\<close> of \<^verbatim>\<open>functor_extension\<close>,
  \<^verbatim>\<open>for (auto& fn : fn_instances) { (*fn)(); }\<close>, over a vector of owned handles. An
  exception leaves the loop at the call that threw; the handles after it are not called.
\<close>

fun invoke_all ::
    "('d, 'p, unit, 'w, 'e) base_class \<Rightarrow> ('d, 'c, 'w, 'e, 'r) d_object list \<Rightarrow> 'w
       \<Rightarrow> ('e + unit) \<times> ('d, 'c, 'w, 'e, 'r) d_object list \<times> 'w" where
  "invoke_all D [] w = (Inr (), [], w)"
| "invoke_all D (fn # fns) w =
     (case virtual_call D fn w of
        (Inl e, fn', w') \<Rightarrow> (Inl e, fn' # fns, w')
      | (Inr u, fn', w') \<Rightarrow>
          (case invoke_all D fns w' of (res, fns', w'') \<Rightarrow> (res, fn' # fns', w'')))"

section \<open>\<^verbatim>\<open>generic_functor\<close>, partial specialisation for a non-polymorphic \<open>D\<close>\<close>

record 'c generic_functor_np =
  m_func_np :: 'c

text \<open>\<^verbatim>\<open>generic_functor(T&& fn) : m_func(std::forward<T>(fn))\<close>\<close>

definition generic_functor_np_ctor :: "'c \<Rightarrow> 'c generic_functor_np" where
  "generic_functor_np_ctor fn = \<lparr>m_func_np = fn\<rparr>"

text \<open>\<^verbatim>\<open>void operator()() { m_func(); }\<close>\<close>

definition generic_functor_np_call ::
    "('c, unit, 'w, 'e, 'r) callable \<Rightarrow> 'c generic_functor_np \<Rightarrow> 'w
       \<Rightarrow> ('e + unit) \<times> 'c generic_functor_np \<times> 'w" where
  "generic_functor_np_call F this w =
     (case call F (m_func_np this) () w of
        (res, c', w') \<Rightarrow> (discard res, this\<lparr>m_func_np := c'\<rparr>, w'))"

text \<open>The defaulted copy and move members (lines 164 to 174).\<close>

definition generic_functor_np_copy_ctor :: "'c generic_functor_np \<Rightarrow> 'c generic_functor_np" where
  "generic_functor_np_copy_ctor other = \<lparr>m_func_np = m_func_np other\<rparr>"

definition generic_functor_np_move_ctor ::
    "('c, 'a, 'w, 'e, 'r) callable \<Rightarrow> 'c generic_functor_np
       \<Rightarrow> 'c generic_functor_np \<times> 'c generic_functor_np" where
  "generic_functor_np_move_ctor F other =
     (\<lparr>m_func_np = m_func_np other\<rparr>, other\<lparr>m_func_np := moved_from F (m_func_np other)\<rparr>)"

definition generic_functor_np_copy_assign ::
    "'c generic_functor_np \<Rightarrow> 'c generic_functor_np \<Rightarrow> 'c generic_functor_np" where
  "generic_functor_np_copy_assign this other = this\<lparr>m_func_np := m_func_np other\<rparr>"

definition generic_functor_np_move_assign ::
    "('c, 'a, 'w, 'e, 'r) callable \<Rightarrow> 'c generic_functor_np \<Rightarrow> 'c generic_functor_np
       \<Rightarrow> 'c generic_functor_np \<times> 'c generic_functor_np" where
  "generic_functor_np_move_assign F this other =
     (this\<lparr>m_func_np := m_func_np other\<rparr>,
      other\<lparr>m_func_np := move_assigned_from F (m_func_np this) (m_func_np other)\<rparr>)"

section \<open>\<^verbatim>\<open>variadic_functor\<close>\<close>

record ('d, 'c) variadic_functor =
  d_base_v :: 'd
  m_func_v :: 'c

text \<open>
  \<^verbatim>\<open>variadic_functor(T&& fn, D_Args&& ... args)
     : D(std::forward<D_Args>(args)...), m_func(std::forward<T>(fn))\<close>
\<close>

definition variadic_functor_ctor ::
    "('d, 'p, 'a, 'w, 'e) base_class \<Rightarrow> 'c \<Rightarrow> 'p \<Rightarrow> ('d, 'c) variadic_functor" where
  "variadic_functor_ctor D fn args = \<lparr>d_base_v = base_ctor D args, m_func_v = fn\<rparr>"

text \<open>
  \<^verbatim>\<open>virtual void operator()(Args...args) override { m_func(args...); }\<close>. The pack
  \<^verbatim>\<open>Args...\<close> is the type \<open>'a\<close>: a tuple type, one component for each parameter, in
  their order; the pack expansion \<^verbatim>\<open>args...\<close> hands the same tuple to the callable.
\<close>

definition variadic_functor_call ::
    "('c, 'a, 'w, 'e, 'r) callable \<Rightarrow> ('d, 'c) variadic_functor \<Rightarrow> 'a \<Rightarrow> 'w
       \<Rightarrow> ('e + unit) \<times> ('d, 'c) variadic_functor \<times> 'w" where
  "variadic_functor_call F this args w =
     (case call F (m_func_v this) args w of
        (res, c', w') \<Rightarrow> (discard res, this\<lparr>m_func_v := c'\<rparr>, w'))"

text \<open>An object reached through a handle of type \<open>D\<close>, for a \<open>D\<close> whose virtual
  operator takes the arguments \<open>'a\<close>.\<close>

datatype ('d, 'c, 'a, 'w, 'e, 'r) dv_object =
    Base_object_v 'd
  | Variadic_functor_object "('c, 'a, 'w, 'e, 'r) callable" "('d, 'c) variadic_functor"

definition virtual_call_v ::
    "('d, 'p, 'a, 'w, 'e) base_class \<Rightarrow> ('d, 'c, 'a, 'w, 'e, 'r) dv_object \<Rightarrow> 'a \<Rightarrow> 'w
       \<Rightarrow> ('e + unit) \<times> ('d, 'c, 'a, 'w, 'e, 'r) dv_object \<times> 'w" where
  "virtual_call_v D obj args w =
     (case obj of
        Base_object_v d \<Rightarrow>
          (case base_call D d args w of (res, d', w') \<Rightarrow> (res, Base_object_v d', w'))
      | Variadic_functor_object F g \<Rightarrow>
          (case variadic_functor_call F g args w of
             (res, g', w') \<Rightarrow> (res, Variadic_functor_object F g', w')))"

section \<open>Which \<^verbatim>\<open>generic_functor\<close> a template-id names\<close>

text \<open>
  The primary template is declared
  \<^verbatim>\<open>template <class F, class D = functor_extension, typename = void>\<close> and the partial
  specialisation is
  \<^verbatim>\<open>generic_functor<F, D, typename std::enable_if<!std::is_polymorphic<D>::value>::type>\<close>.
  Only what the selection looks at is kept of a type: whether it is \<^verbatim>\<open>void\<close>, some other
  non-class type (\<^verbatim>\<open>bool\<close> in the \<^verbatim>\<open>@example\<close> of the specialisation), or a class,
  and for a class whether it declares or inherits a virtual function.
\<close>

datatype cpp_type = Void | Non_class | Class_type bool

text \<open>\<^verbatim>\<open>std::is_polymorphic<D>::value\<close>\<close>

fun is_polymorphic :: "cpp_type \<Rightarrow> bool" where
  "is_polymorphic Void = False"
| "is_polymorphic Non_class = False"
| "is_polymorphic (Class_type has_virtual) = has_virtual"

text \<open>
  \<^verbatim>\<open>std::enable_if<B>::type\<close> (with the default second argument): \<^verbatim>\<open>void\<close> when
  \<open>B\<close> holds, and no member at all otherwise, which makes the deduction of the partial
  specialisation fail without an error.
\<close>

definition enable_if :: "bool \<Rightarrow> cpp_type option" where
  "enable_if b = (if b then Some Void else None)"

datatype specialisation = Primary_derived_from_D | Partial_flat

text \<open>
  The class that \<^verbatim>\<open>generic_functor<F, D, X>\<close> names: the partial specialisation when
  its argument list matches, that is when its third argument exists and is \<open>X\<close>; the
  primary template otherwise. \<open>F\<close> is matched by a plain template parameter in both.
  \<^verbatim>\<open>generic_functor<F, D>\<close> is \<^verbatim>\<open>generic_functor<F, D, void>\<close>.
\<close>

definition generic_functor_select :: "'f \<Rightarrow> cpp_type \<Rightarrow> cpp_type \<Rightarrow> specialisation" where
  "generic_functor_select F D X =
     (if enable_if (\<not> is_polymorphic D) = Some X then Partial_flat
      else Primary_derived_from_D)"

section \<open>Client programs and example callables\<close>

text \<open>
  A client of the flat \<^verbatim>\<open>generic_functor\<close>: a sequence of statements over named
  wrapper objects, each one use of a single member. \<open>Invoke i\<close> calls
  \<^verbatim>\<open>i()\<close>, catches what it throws and records the outcome;
  \<open>Copy_construct i j\<close> declares \<open>i\<close> as a copy of \<open>j\<close>, \<open>Move_construct i j\<close> as
  \<^verbatim>\<open>std::move(j)\<close>; \<open>Copy_assign i j\<close> is \<^verbatim>\<open>i = j\<close> and \<open>Move_assign i j\<close> is
  \<^verbatim>\<open>i = std::move(j)\<close>. The objects are a function from names to wrappers; in a move
  the source is written first, so that an object moved to itself keeps the value.
\<close>

datatype functor_op =
    Invoke nat
  | Copy_construct nat nat
  | Move_construct nat nat
  | Copy_assign nat nat
  | Move_assign nat nat

fun is_invoke :: "functor_op \<Rightarrow> bool" where
  "is_invoke (Invoke i) = True"
| "is_invoke (Copy_construct i j) = False"
| "is_invoke (Move_construct i j) = False"
| "is_invoke (Copy_assign i j) = False"
| "is_invoke (Move_assign i j) = False"

fun functor_step ::
    "('c, unit, 'w, 'e, 'r) callable \<Rightarrow> functor_op \<Rightarrow> (nat \<Rightarrow> 'c generic_functor_np) \<times> 'w
       \<Rightarrow> ('e + unit) list \<times> (nat \<Rightarrow> 'c generic_functor_np) \<times> 'w" where
  "functor_step F (Invoke i) (objs, w) =
     (case generic_functor_np_call F (objs i) w of
        (res, g', w') \<Rightarrow> ([res], objs(i := g'), w'))"
| "functor_step F (Copy_construct i j) (objs, w) =
     ([], objs(i := generic_functor_np_copy_ctor (objs j)), w)"
| "functor_step F (Move_construct i j) (objs, w) =
     (case generic_functor_np_move_ctor F (objs j) of
        (new, src) \<Rightarrow> ([], objs(j := src, i := new), w))"
| "functor_step F (Copy_assign i j) (objs, w) =
     ([], objs(i := generic_functor_np_copy_assign (objs i) (objs j)), w)"
| "functor_step F (Move_assign i j) (objs, w) =
     (case generic_functor_np_move_assign F (objs i) (objs j) of
        (tgt, src) \<Rightarrow> ([], objs(j := src, i := tgt), w))"

fun functor_run ::
    "('c, unit, 'w, 'e, 'r) callable \<Rightarrow> functor_op list \<Rightarrow> (nat \<Rightarrow> 'c generic_functor_np) \<times> 'w
       \<Rightarrow> ('e + unit) list \<times> (nat \<Rightarrow> 'c generic_functor_np) \<times> 'w" where
  "functor_run F [] s = ([], s)"
| "functor_run F (x # xs) s =
     (case functor_step F x s of
        (out, s') \<Rightarrow> (case functor_run F xs s' of (outs, s'') \<Rightarrow> (out @ outs, s'')))"

text \<open>
  The callable with every returned value passed through \<open>h\<close>: the same effects, the
  same exceptions, another result.
\<close>

definition with_result ::
    "('r \<Rightarrow> 'q) \<Rightarrow> ('c, 'a, 'w, 'e, 'r) callable \<Rightarrow> ('c, 'a, 'w, 'e, 'q) callable" where
  "with_result h F =
     \<lparr>call = (\<lambda>c a w. case call F c a w of
                 (Inl e, c', w') \<Rightarrow> (Inl e, c', w')
               | (Inr r, c', w') \<Rightarrow> (Inr (h r), c', w')),
      moved_from = moved_from F,
      move_assigned_from = move_assigned_from F\<rparr>"

text \<open>
  The specification's counter scenario, \<^verbatim>\<open>[&counter]{ ++counter; return 42; }\<close>: the
  state is the counter.
\<close>

definition counter_increment :: "(unit, unit, nat, string, nat) callable" where
  "counter_increment =
     \<lparr>call = (\<lambda>c a counter. (Inr 42, c, Suc counter)),
      moved_from = (\<lambda>c. c),
      move_assigned_from = (\<lambda>t c. c)\<rparr>"

text \<open>
  The two closures of the \<^verbatim>\<open>@example\<close> of \<^verbatim>\<open>functor_extension\<close>, over integers:
  \<^verbatim>\<open>[x = 13] () mutable { std::cout << ++x; }\<close> and \<^verbatim>\<open>[x = 3] () { std::cout << x; }\<close>.
  The closure's value is \<open>x\<close>, the state is what was written to the output.
\<close>

definition print_incremented :: "(int, unit, int list, string, unit) callable" where
  "print_incremented =
     \<lparr>call = (\<lambda>x a out. (Inr (), x + 1, out @ [x + 1])),
      moved_from = (\<lambda>x. x),
      move_assigned_from = (\<lambda>t x. x)\<rparr>"

definition print_captured :: "(int, unit, int list, string, unit) callable" where
  "print_captured =
     \<lparr>call = (\<lambda>x a out. (Inr (), x, out @ [x])),
      moved_from = (\<lambda>x. x),
      move_assigned_from = (\<lambda>t x. x)\<rparr>"

text \<open>
  A function object that prints its member \<open>x\<close> as \<open>print_captured\<close> does, and whose
  move assignment is written with a swap,
  \<^verbatim>\<open>F& operator=(F&& other) { std::swap(x, other.x); return *this; }\<close>: the source is
  left with the value the target had.
\<close>

definition print_captured_swapping :: "(int, unit, int list, string, unit) callable" where
  "print_captured_swapping =
     \<lparr>call = (\<lambda>x a out. (Inr (), x, out @ [x])),
      moved_from = (\<lambda>x. x),
      move_assigned_from = (\<lambda>t x. t)\<rparr>"

text \<open>
  A closure that writes its capture and then throws:
  \<^verbatim>\<open>[x] () { std::cout << x; throw std::string("failure"); }\<close>.
\<close>

definition print_and_throw :: "(int, unit, int list, string, unit) callable" where
  "print_and_throw =
     \<lparr>call = (\<lambda>x a out. (Inl ''failure'', x, out @ [x])),
      moved_from = (\<lambda>x. x),
      move_assigned_from = (\<lambda>t x. x)\<rparr>"

text \<open>
  A callable of two arguments,
  \<^verbatim>\<open>[] (int a, int b) { if (b == 0) throw std::string("zero"); std::cout << a / b; return a / b; }\<close>
  on non-negative arguments (where the division of C++ and the one of HOL agree).
\<close>

definition print_quotient :: "(unit, nat \<times> nat, nat list, string, nat) callable" where
  "print_quotient =
     \<lparr>call = (\<lambda>c (a, b) out.
                if b = 0 then (Inl ''zero'', c, out) else (Inr (a div b), c, out @ [a div b])),
      moved_from = (\<lambda>c. c),
      move_assigned_from = (\<lambda>t c. c)\<rparr>"

text \<open>
  A base class with a virtual call operator of its own that does nothing (the state of
  the subobject is the constructor's argument), for the zero-argument and for the
  two-argument interface.
\<close>

definition noop_base :: "(nat, nat, unit, int list, string) base_class" where
  "noop_base = \<lparr>base_ctor = (\<lambda>p. p), base_call = (\<lambda>d a w. (Inr (), d, w))\<rparr>"

definition noop_base_v :: "(nat, nat, nat \<times> nat, nat list, string) base_class" where
  "noop_base_v = \<lparr>base_ctor = (\<lambda>p. p), base_call = (\<lambda>d a w. (Inr (), d, w))\<rparr>"

section \<open>Properties of \<^verbatim>\<open>generic_guard\<close>\<close>

lemma call_counted:
  "call (counted F) c a (w, n) =
     (case call F c a w of (res, c', w') \<Rightarrow> (res, c', (w', Suc n)))"
  by (simp add: counted_def)

lemma generic_guard_dtor_counted:
  "generic_guard_dtor (counted F) g (w, n) =
     (case generic_guard_dtor F g w of (res, w') \<Rightarrow> (res, (w', Suc n)))"
  by (simp add: generic_guard_dtor_def call_counted split: prod.splits sum.splits)

text \<open>
  Claim C4. Destroying a guard constructed with the action \<open>fn\<close> calls \<open>fn\<close> exactly
  once, whatever the state and whatever the call does: the state after the destruction
  is the state after one call of \<open>fn\<close>, the invocation counter of an instrumented action
  has advanced by exactly one, and this holds on both outcomes of the destructor (the
  action returned, or it threw and the program terminated).
\<close>

theorem generic_guard_dtor_invokes_once:
  "snd (generic_guard_dtor F (generic_guard_ctor fn) w) = snd (snd (call F fn () w))
   \<and> snd (generic_guard_dtor (counted F) (generic_guard_ctor fn) (w, n))
       = (snd (snd (call F fn () w)), Suc n)"
  by (simp add: generic_guard_dtor_counted)
     (simp add: generic_guard_dtor_def generic_guard_ctor_def split: prod.splits sum.splits)

theorem generic_guard_dtor_invokes_once_example:
  "generic_guard_dtor (counted close_action) (generic_guard_ctor ()) (False, 0)
     = (Inr (), (True, Suc 0))"
  using generic_guard_dtor_invokes_once [of "close_action" "()" False 0]
  by (simp add: generic_guard_dtor_def generic_guard_ctor_def close_action_def counted_def)

text \<open>What a move construction stores, and what the block's exit leaves.\<close>

lemma generic_guard_move_ctor_ctor:
  "generic_guard_move_ctor F (generic_guard_ctor fn) =
     (generic_guard_ctor fn, generic_guard_ctor (moved_from F fn))"
  by (simp add: generic_guard_move_ctor_def generic_guard_ctor_def)

lemma generic_guard_dtor_ctor_counted:
  "snd (generic_guard_dtor (counted F) (generic_guard_ctor fn) (w, n)) =
     (snd (snd (call F fn () w)), Suc n)"
  by (simp add: generic_guard_dtor_counted)
     (simp add: generic_guard_dtor_def generic_guard_ctor_def split: prod.splits sum.splits)

lemma guarded_scope_state:
  "snd (guarded_scope F fn body w) =
     snd (generic_guard_dtor F (generic_guard_ctor fn) (snd (body w)))"
  by (simp add: guarded_scope_def split: prod.splits sum.splits)

text \<open>
  Claim C1, as the specification states it, fails on its second half: the move
  constructor is defaulted and the destructor has no condition, so a moved-from guard
  calls its action at destruction as every other guard does. Here the action is the
  scenario's \<^verbatim>\<open>[&]{ closed = true; }\<close> with an invocation counter. The guard that was
  moved from, destroyed in the state \<open>(False, 0)\<close>, sets the flag and counts one
  invocation, where the claim says it invokes nothing; in the block with both guards the
  action has run twice at the end, where the claim says once.
\<close>

theorem moved_from_guard_still_invokes:
  "generic_guard_dtor (counted close_action)
      (snd (generic_guard_move_ctor (counted close_action) (generic_guard_ctor ())))
      (False, 0)
     = (Inr (), (True, Suc 0))
   \<and> snd (generic_guard_dtor (counted close_action)
      (snd (generic_guard_move_ctor (counted close_action) (generic_guard_ctor ())))
      (False, 0)) \<noteq> (False, 0)
   \<and> moved_guard_scope (counted close_action) () (\<lambda>s. (Inr (), s)) (False, 0)
     = (Inr (Inr ()) :: abort + (unit + unit), (True, Suc (Suc 0)))"
  by (simp add: moved_guard_scope_def generic_guard_dtor_def generic_guard_move_ctor_def
      generic_guard_ctor_def counted_def close_action_def)

text \<open>
  Claim C1, amended. A guard constructed with the action \<open>fn\<close> calls \<open>fn\<close> exactly once
  when its block is left, whether the body returned or threw: the state after the block
  is the state after the body followed by one call of \<open>fn\<close>, and the invocation counter
  is one more than after the body. A move construction does not disarm its source: the new
  guard holds \<open>fn\<close>, the source holds what moving \<open>fn\<close> left (\<open>moved_from F fn\<close>), and the
  destruction of each calls the action it holds exactly once.
\<close>

theorem generic_guard_invokes_on_every_exit:
  "snd (guarded_scope (counted F) fn body s) =
     (snd (snd (call F fn () (fst (snd (body s))))), Suc (snd (snd (body s))))
   \<and> snd (generic_guard_dtor (counted F)
        (fst (generic_guard_move_ctor (counted F) (generic_guard_ctor fn))) (w, n))
       = (snd (snd (call F fn () w)), Suc n)
   \<and> snd (generic_guard_dtor (counted F)
        (snd (generic_guard_move_ctor (counted F) (generic_guard_ctor fn))) (w, n))
       = (snd (snd (call F (moved_from F fn) () w)), Suc n)"
proof (intro conjI)
  obtain res w1 n1 where b: "body s = (res, (w1, n1))"
    by (metis prod.exhaust)
  show "snd (guarded_scope (counted F) fn body s) =
     (snd (snd (call F fn () (fst (snd (body s))))), Suc (snd (snd (body s))))"
    by (simp add: guarded_scope_state b generic_guard_dtor_ctor_counted)
next
  show "snd (generic_guard_dtor (counted F)
        (fst (generic_guard_move_ctor (counted F) (generic_guard_ctor fn))) (w, n))
       = (snd (snd (call F fn () w)), Suc n)"
    by (simp add: generic_guard_move_ctor_ctor generic_guard_dtor_ctor_counted)
next
  have "moved_from (counted F) fn = moved_from F fn"
    by (simp add: counted_def)
  then show "snd (generic_guard_dtor (counted F)
        (snd (generic_guard_move_ctor (counted F) (generic_guard_ctor fn))) (w, n))
       = (snd (snd (call F (moved_from F fn) () w)), Suc n)"
    by (simp add: generic_guard_move_ctor_ctor generic_guard_dtor_ctor_counted)
qed

theorem generic_guard_invokes_on_every_exit_example:
  "guarded_scope (counted close_action) () (\<lambda>s. (Inl ''failure'', s)) (False, 0)
     = (Inr (Inl ''failure'') :: abort + (string + unit), (True, Suc 0))
   \<and> guarded_scope (counted close_action) () (\<lambda>s. (Inr (), s)) (False, 0)
     = (Inr (Inr ()) :: abort + (string + unit), (True, Suc 0))"
  using generic_guard_invokes_on_every_exit [of close_action "()" "\<lambda>s. (Inr (), s)" "(False, 0)"]
  by (simp add: guarded_scope_def generic_guard_dtor_def generic_guard_ctor_def
      close_action_def counted_def)

lemma copy_assigned_target:
  "generic_guard_copy_assign (generic_guard_ctor fn_t) (generic_guard_ctor fn_s) =
     generic_guard_ctor fn_s"
  by (simp add: generic_guard_copy_assign_def generic_guard_ctor_def)

text \<open>
  Claim C10, as the specification states it, fails for the move assignment: the
  defaulted operator moves \<^verbatim>\<open>m_fn\<close> with the move assignment of \<open>F\<close>, and what that
  leaves in the source is run by the source guard's destructor. Here \<open>F\<close> swaps in its
  move assignment. The target held the action that prints 1 and is assigned the one that
  prints 2: the destruction of the source guard prints 1, the action that was replaced,
  and the block with both guards prints 1 and then 2, where the claim says that no later
  destruction runs the replaced action.
\<close>

theorem move_assigned_source_runs_replaced_action:
  "generic_guard_dtor print_captured_swapping
      (snd (generic_guard_move_assign print_captured_swapping
              (generic_guard_ctor 1) (generic_guard_ctor 2))) []
     = (Inr (), [1])
   \<and> move_assigned_guard_scope print_captured_swapping 1 2 (\<lambda>s. (Inr (), s)) []
     = (Inr (Inr ()) :: abort + (unit + unit), [1, 2])"
  by (simp add: move_assigned_guard_scope_def generic_guard_dtor_def
      generic_guard_move_assign_def generic_guard_ctor_def print_captured_swapping_def)

text \<open>
  Claim C10, amended. After a copy assignment or a move assignment the target guard
  holds the source's action, and its destruction is the destruction of a guard holding
  that action: one call of it. The right-hand sides do not mention the target \<open>this\<close>:
  the action it held before has no part in what the target's destruction does. The
  assignments themselves are functions of the two guards alone and call nothing, so the
  invocation counter after the destruction is one more than before the assignment.
  A copy assignment leaves its source as it was, and the block with the two guards does
  the same whatever action the target held before: that action never runs. A move
  assignment leaves in its source what the move assignment of \<open>F\<close> leaves there
  (\<open>move_assigned_from\<close> of the target's old action and the source's), and the
  destruction of the source guard calls that, exactly once.
\<close>

theorem generic_guard_assignment_overwrites:
  "generic_guard_dtor F (generic_guard_copy_assign this other) w
     = generic_guard_dtor F other w
   \<and> generic_guard_dtor F (fst (generic_guard_move_assign G this other)) w
     = generic_guard_dtor F other w
   \<and> snd (generic_guard_dtor (counted F) (generic_guard_copy_assign this other) (w, n))
     = (snd (snd (call F (m_fn other) () w)), Suc n)
   \<and> snd (generic_guard_dtor (counted F)
        (fst (generic_guard_move_assign G this other)) (w, n))
     = (snd (snd (call F (m_fn other) () w)), Suc n)
   \<and> copy_assigned_guard_scope F fn_t fn_s body w
     = copy_assigned_guard_scope F fn_t' fn_s body w
   \<and> generic_guard_dtor F (snd (generic_guard_move_assign G this other)) w
     = generic_guard_dtor F
         (generic_guard_ctor (move_assigned_from G (m_fn this) (m_fn other))) w
   \<and> snd (generic_guard_dtor (counted F)
        (snd (generic_guard_move_assign G this other)) (w, n))
     = (snd (snd (call F (move_assigned_from G (m_fn this) (m_fn other)) () w)), Suc n)"
proof (intro conjI)
  show "generic_guard_dtor F (generic_guard_copy_assign this other) w
     = generic_guard_dtor F other w"
    by (simp add: generic_guard_dtor_def generic_guard_copy_assign_def)
next
  show "generic_guard_dtor F (fst (generic_guard_move_assign G this other)) w
     = generic_guard_dtor F other w"
    by (simp add: generic_guard_dtor_def generic_guard_move_assign_def)
next
  show "snd (generic_guard_dtor (counted F) (generic_guard_copy_assign this other) (w, n))
     = (snd (snd (call F (m_fn other) () w)), Suc n)"
    by (simp add: generic_guard_dtor_counted)
       (simp add: generic_guard_dtor_def generic_guard_copy_assign_def
         split: prod.splits sum.splits)
next
  show "snd (generic_guard_dtor (counted F)
        (fst (generic_guard_move_assign G this other)) (w, n))
     = (snd (snd (call F (m_fn other) () w)), Suc n)"
    by (simp add: generic_guard_dtor_counted)
       (simp add: generic_guard_dtor_def generic_guard_move_assign_def
         split: prod.splits sum.splits)
next
  show "copy_assigned_guard_scope F fn_t fn_s body w
     = copy_assigned_guard_scope F fn_t' fn_s body w"
    unfolding copy_assigned_guard_scope_def Let_def copy_assigned_target
    by (rule refl)
next
  show "generic_guard_dtor F (snd (generic_guard_move_assign G this other)) w
     = generic_guard_dtor F
         (generic_guard_ctor (move_assigned_from G (m_fn this) (m_fn other))) w"
    by (simp add: generic_guard_dtor_def generic_guard_move_assign_def generic_guard_ctor_def)
next
  show "snd (generic_guard_dtor (counted F)
        (snd (generic_guard_move_assign G this other)) (w, n))
     = (snd (snd (call F (move_assigned_from G (m_fn this) (m_fn other)) () w)), Suc n)"
    by (simp add: generic_guard_dtor_counted)
       (simp add: generic_guard_dtor_def generic_guard_move_assign_def
         split: prod.splits sum.splits)
qed

theorem generic_guard_assignment_overwrites_example:
  "generic_guard_dtor print_captured
       (generic_guard_copy_assign (generic_guard_ctor 1) (generic_guard_ctor 2)) []
     = (Inr (), [2])
   \<and> generic_guard_dtor print_captured
       (fst (generic_guard_move_assign print_captured (generic_guard_ctor 1)
               (generic_guard_ctor 2))) []
     = (Inr (), [2])
   \<and> generic_guard_dtor print_captured
       (snd (generic_guard_move_assign print_captured (generic_guard_ctor 1)
               (generic_guard_ctor 2))) []
     = (Inr (), [2])
   \<and> copy_assigned_guard_scope print_captured 1 2 (\<lambda>s. (Inr (), s)) []
     = (Inr (Inr ()) :: abort + (unit + unit), [2, 2])"
  using generic_guard_assignment_overwrites
    [where F = print_captured and this = "generic_guard_ctor 1"
       and other = "generic_guard_ctor 2" and w = "[]" and G = print_captured and n = 0
       and fn_t = 1 and fn_t' = 2 and fn_s = 2
       and body = "\<lambda>s. (Inr () :: unit + unit, s)"]
  unfolding copy_assigned_guard_scope_def Let_def copy_assigned_target
  by (simp add: generic_guard_copy_assign_def
      generic_guard_dtor_def generic_guard_ctor_def generic_guard_move_assign_def
      print_captured_def)

section \<open>Properties of the functors\<close>

lemma call_with_result:
  "call (with_result h F) c a w =
     (case call F c a w of (res, c', w') \<Rightarrow> (map_sum (\<lambda>e. e) h res, c', w'))"
  by (simp add: with_result_def split: prod.splits sum.splits)

lemma discard_map_sum: "discard (map_sum (\<lambda>e. e) h res) = discard res"
  by (cases res) (simp_all add: discard_def)

text \<open>
  Claim C2. \<^verbatim>\<open>generic_functor<F, D>\<close> names the primary template, which derives from
  \<open>D\<close> and overrides its virtual operator, exactly when \<open>D\<close> is polymorphic, and the
  flat partial specialisation exactly when it is not. The choice is the same for every
  \<open>F\<close> (of any kind), and it is a function of the template arguments alone: no object
  and no program state enters it.
\<close>

theorem generic_functor_selection:
  "(generic_functor_select F D Void = Primary_derived_from_D) = is_polymorphic D
   \<and> (generic_functor_select F D Void = Partial_flat) = (\<not> is_polymorphic D)
   \<and> generic_functor_select F D Void = generic_functor_select F' D Void"
  by (simp add: generic_functor_select_def enable_if_def)

theorem generic_functor_selection_example:
  "generic_functor_select () Non_class Void = Partial_flat
   \<and> generic_functor_select () (Class_type False) Void = Partial_flat
   \<and> generic_functor_select () (Class_type True) Void = Primary_derived_from_D"
  using generic_functor_selection [of "()" Non_class "()"]
    generic_functor_selection [of "()" "Class_type False" "()"]
    generic_functor_selection [of "()" "Class_type True" "()"]
  by simp

text \<open>
  Claim C3. A flat \<^verbatim>\<open>generic_functor\<close> constructed from \<open>fn\<close> and called once does
  what one direct call \<open>fn()\<close> does: the same outcome (returned, or the same exception),
  the same state afterwards, and the wrapper then holds the callable as the call left it.
  The callable is called exactly once: an instrumented callable's counter advances by one.
\<close>

theorem generic_functor_np_same_as_direct_call:
  "generic_functor_np_call F (generic_functor_np_ctor fn) w =
     (case call F fn () w of (res, c', w') \<Rightarrow> (discard res, generic_functor_np_ctor c', w'))
   \<and> snd (snd (generic_functor_np_call (counted F) (generic_functor_np_ctor fn) (w, n)))
       = (snd (snd (call F fn () w)), Suc n)"
  by (simp add: generic_functor_np_call_def generic_functor_np_ctor_def call_counted
      split: prod.splits)

theorem generic_functor_np_same_as_direct_call_example:
  "generic_functor_np_call counter_increment (generic_functor_np_ctor ()) 0
     = (Inr (), generic_functor_np_ctor (), Suc 0)
   \<and> call counter_increment () () 0 = (Inr 42, (), Suc 0)"
  using generic_functor_np_same_as_direct_call [of counter_increment "()" 0 0]
  by (simp add: counter_increment_def discard_def)

text \<open>
  Claim C5. A \<^verbatim>\<open>variadic_functor<F, D, Args...>\<close> constructed from \<open>fn\<close> and called
  through a handle of type \<open>D\<close> with the arguments \<open>args\<close> does what the direct call of
  \<open>fn\<close> on \<open>args\<close> does: the callable receives the very tuple the caller passed, each
  argument in its position, and the outcome and the state afterwards are those of that
  call.
\<close>

theorem variadic_functor_same_as_direct_call:
  "virtual_call_v D (Variadic_functor_object F (variadic_functor_ctor D fn p)) args w =
     (case call F fn args w of
        (res, c', w') \<Rightarrow>
          (discard res, Variadic_functor_object F (variadic_functor_ctor D c' p), w'))"
  by (simp add: virtual_call_v_def variadic_functor_call_def variadic_functor_ctor_def
      split: prod.splits)

theorem variadic_functor_same_as_direct_call_example:
  "virtual_call_v noop_base_v
       (Variadic_functor_object print_quotient (variadic_functor_ctor noop_base_v () 7))
       (6, 3) []
     = (Inr (), Variadic_functor_object print_quotient (variadic_functor_ctor noop_base_v () 7),
        [2])
   \<and> call print_quotient () (6, 3) [] = (Inr 2, (), [2])"
  using variadic_functor_same_as_direct_call [of noop_base_v print_quotient "()" 7 "(6, 3)" "[]"]
  by (simp add: print_quotient_def discard_def)

text \<open>
  Claim C6. A call through a handle of type \<open>D\<close> whose object is a
  \<^verbatim>\<open>generic_functor<F, D>\<close> runs the stored callable: its outcome and effect are those of
  the call of \<open>fn\<close>, and the body \<open>D\<close> gives its own virtual operator has no part in it
  (replacing that body by any other changes nothing). Two such wrappers behind two
  handles, called one after the other, run each its own callable on its own stored
  value: the first call is \<open>F1\<close> on \<open>fn1\<close>, the second is \<open>F2\<close> on \<open>fn2\<close>.
\<close>

theorem generic_functor_dispatches_to_stored_callable:
  "virtual_call D (Generic_functor_object F (generic_functor_ctor D fn p)) w =
     (case call F fn () w of
        (res, c', w') \<Rightarrow>
          (discard res, Generic_functor_object F (generic_functor_ctor D c' p), w'))
   \<and> virtual_call (D\<lparr>base_call := b\<rparr>) (Generic_functor_object F g) w =
       virtual_call D (Generic_functor_object F g) w
   \<and> invoke_all D [Generic_functor_object F1 (generic_functor_ctor D fn1 p1),
                    Generic_functor_object F2 (generic_functor_ctor D fn2 p2)] w =
     (case call F1 fn1 () w of
        (Inl e, c1, w1) \<Rightarrow>
          (Inl e, [Generic_functor_object F1 (generic_functor_ctor D c1 p1),
                   Generic_functor_object F2 (generic_functor_ctor D fn2 p2)], w1)
      | (Inr r, c1, w1) \<Rightarrow>
          (case call F2 fn2 () w1 of
             (res, c2, w2) \<Rightarrow>
               (discard res, [Generic_functor_object F1 (generic_functor_ctor D c1 p1),
                   Generic_functor_object F2 (generic_functor_ctor D c2 p2)], w2)))"
  by (simp add: virtual_call_def generic_functor_call_def generic_functor_ctor_def discard_def
      split: prod.splits sum.splits)

theorem generic_functor_dispatches_to_stored_callable_example:
  "invoke_all noop_base
       [Generic_functor_object print_incremented (generic_functor_ctor noop_base 13 0),
        Generic_functor_object print_captured (generic_functor_ctor noop_base 3 0)] []
     = (Inr (),
        [Generic_functor_object print_incremented (generic_functor_ctor noop_base 14 0),
         Generic_functor_object print_captured (generic_functor_ctor noop_base 3 0)],
        [14, 3])"
proof -
  have first: "call print_incremented 13 () [] = (Inr (), 14, [14])"
    by (simp add: print_incremented_def)
  have second: "call print_captured 3 () [14] = (Inr (), 3, [14, 3])"
    by (simp add: print_captured_def)
  from generic_functor_dispatches_to_stored_callable
    [where D = noop_base and ?F1.0 = print_incremented and ?fn1.0 = 13 and ?p1.0 = 0
       and ?F2.0 = print_captured and ?fn2.0 = 3 and ?p2.0 = 0 and w = "[]"
       and F = print_captured and fn = 3 and p = 0 and b = "base_call noop_base"
       and g = "generic_functor_ctor noop_base 3 0"]
  show ?thesis
    by (simp add: first second discard_def del: invoke_all.simps)
qed

text \<open>
  Claim C7. When the call of the stored callable throws \<open>e\<close>, the call operator of each
  wrapper (the flat \<^verbatim>\<open>generic_functor\<close>, the polymorphic one, \<^verbatim>\<open>variadic_functor\<close>)
  throws the same \<open>e\<close> to its caller, directly and through a handle of type \<open>D\<close>, with
  the state and the callable as the failed call left them: nothing is caught,
  translated, retried or undone.
\<close>

theorem invocation_failure_propagates:
  "(call F (m_func_np g) () w = (Inl e, c', w')
      \<longrightarrow> generic_functor_np_call F g w = (Inl e, g\<lparr>m_func_np := c'\<rparr>, w'))
   \<and> (call F2 (m_func p) () w2 = (Inl e2, c2, w2')
      \<longrightarrow> generic_functor_call F2 p w2 = (Inl e2, p\<lparr>m_func := c2\<rparr>, w2')
        \<and> virtual_call D (Generic_functor_object F2 p) w2
            = (Inl e2, Generic_functor_object F2 (p\<lparr>m_func := c2\<rparr>), w2'))
   \<and> (call G (m_func_v v) args w3 = (Inl e3, c3, w3')
      \<longrightarrow> variadic_functor_call G v args w3 = (Inl e3, v\<lparr>m_func_v := c3\<rparr>, w3')
        \<and> virtual_call_v Dv (Variadic_functor_object G v) args w3
            = (Inl e3, Variadic_functor_object G (v\<lparr>m_func_v := c3\<rparr>), w3'))"
  by (simp add: generic_functor_np_call_def generic_functor_call_def variadic_functor_call_def
      virtual_call_def virtual_call_v_def discard_def)

theorem invocation_failure_propagates_example:
  "call print_and_throw 5 () [] = (Inl ''failure'', 5, [5])
   \<and> generic_functor_np_call print_and_throw (generic_functor_np_ctor 5) []
       = (Inl ''failure'', generic_functor_np_ctor 5, [5])
   \<and> virtual_call noop_base
        (Generic_functor_object print_and_throw (generic_functor_ctor noop_base 5 0)) []
       = (Inl ''failure'',
          Generic_functor_object print_and_throw (generic_functor_ctor noop_base 5 0), [5])
   \<and> call print_quotient () (6, 0) [] = (Inl ''zero'', (), [])
   \<and> virtual_call_v noop_base_v
        (Variadic_functor_object print_quotient (variadic_functor_ctor noop_base_v () 7))
        (6, 0) []
       = (Inl ''zero'',
          Variadic_functor_object print_quotient (variadic_functor_ctor noop_base_v () 7), [])"
proof -
  have zero: "call print_and_throw 5 () [] = (Inl ''failure'', 5, [5])"
    by (simp add: print_and_throw_def)
  have two: "call print_quotient () (6, 0) [] = (Inl ''zero'', (), [])"
    by (simp add: print_quotient_def)
  from invocation_failure_propagates
    [where F = print_and_throw and g = "generic_functor_np_ctor 5" and w = "[]"
       and e = "''failure''" and c' = 5 and w' = "[5]"
       and ?F2.0 = print_and_throw and p = "generic_functor_ctor noop_base 5 0" and ?w2.0 = "[]"
       and ?e2.0 = "''failure''" and ?c2.0 = 5 and w2' = "[5]" and D = noop_base
       and G = print_quotient and v = "variadic_functor_ctor noop_base_v () 7"
       and args = "(6, 0)" and ?w3.0 = "[]" and ?e3.0 = "''zero''" and ?c3.0 = "()"
       and w3' = "[]" and Dv = noop_base_v]
  show ?thesis
    by (simp add: zero two generic_functor_np_ctor_def generic_functor_ctor_def
        variadic_functor_ctor_def)
qed

lemma functor_step_counted:
  "snd (snd (snd (functor_step (counted F) x (objs, (w, n))))) =
     (if is_invoke x then Suc n else n)"
  by (cases x) (simp_all add: generic_functor_np_call_def call_counted split: prod.splits)

text \<open>
  Claim C8. In every client program over flat \<^verbatim>\<open>generic_functor\<close> objects, from any
  objects and any state, the number of calls of the stored callable is the number of the
  program's calls of a wrapper: the invocation counter of an instrumented callable grows
  by the number of \<open>Invoke\<close> statements, and the copy constructions, move
  constructions, copy assignments and move assignments add nothing to it.
\<close>

theorem functor_run_counted:
  "snd (snd (snd (functor_run (counted F) xs (objs, (w, n))))) = n + length (filter is_invoke xs)"
proof (induction xs arbitrary: objs w n)
  case Nil
  then show ?case by simp
next
  case (Cons x xs)
  obtain out objs' w' n'
    where st: "functor_step (counted F) x (objs, (w, n)) = (out, objs', (w', n'))"
    by (metis prod.exhaust)
  with functor_step_counted [of F x objs w n] have n': "n' = (if is_invoke x then Suc n else n)"
    by simp
  obtain outs s'' where r: "functor_run (counted F) xs (objs', (w', n')) = (outs, s'')"
    by (metis prod.exhaust)
  have "snd (snd s'') = n' + length (filter is_invoke xs)"
    using Cons.IH [of objs' w' n'] by (simp add: r)
  moreover have
    "snd (snd (snd (functor_run (counted F) (x # xs) (objs, (w, n))))) = snd (snd s'')"
    by (simp add: st r)
  ultimately show ?case
    unfolding n' by simp
qed

theorem functor_run_counted_example:
  "snd (snd (functor_run (counted counter_increment)
       [Invoke 0, Copy_construct 1 0, Invoke 1, Move_assign 0 1, Invoke 0,
        Move_construct 2 0, Copy_assign 1 2]
       (\<lambda>i. generic_functor_np_ctor (), (0, 0)))) = (3, 3)"
  using functor_run_counted
    [of counter_increment
       "[Invoke 0, Copy_construct 1 0, Invoke 1, Move_assign 0 1, Invoke 0,
         Move_construct 2 0, Copy_assign 1 2]"
       "\<lambda>i. generic_functor_np_ctor ()" 0 0]
  by (simp add: counted_def counter_increment_def generic_functor_np_call_def
      generic_functor_np_ctor_def generic_functor_np_copy_ctor_def
      generic_functor_np_move_ctor_def generic_functor_np_copy_assign_def
      generic_functor_np_move_assign_def discard_def)

text \<open>
  Claim C9. The call operators return nothing: their result is \<open>Inr ()\<close> or an
  exception, and what the stored callable returns cannot be seen through a wrapper.
  Replacing every value the callable returns by any other (\<open>with_result h\<close>) leaves each
  wrapper's call the same in its outcome, in the wrapper afterwards and in the state.
\<close>

theorem functor_call_discards_result:
  "generic_functor_np_call (with_result h F) g w = generic_functor_np_call F g w
   \<and> generic_functor_call (with_result h F) p w = generic_functor_call F p w
   \<and> variadic_functor_call (with_result h G) v args w' = variadic_functor_call G v args w'"
  by (simp add: generic_functor_np_call_def generic_functor_call_def variadic_functor_call_def
      call_with_result discard_map_sum split: prod.splits)

theorem functor_call_discards_result_example:
  "generic_functor_np_call counter_increment (generic_functor_np_ctor ()) 0
     = generic_functor_np_call (with_result (\<lambda>r. r + 1) counter_increment)
         (generic_functor_np_ctor ()) 0
   \<and> call counter_increment () () 0 \<noteq> call (with_result (\<lambda>r. r + 1) counter_increment) () () 0"
  using functor_call_discards_result
    [of "\<lambda>r. r + 1" counter_increment "generic_functor_np_ctor ()" 0]
  by (simp add: with_result_def counter_increment_def generic_functor_np_call_def discard_def)

end
